theory Spec2Isabelle
  imports Main
begin

section \<open>The interface layer of the ROS utilities\<close>

text \<open>
  A shallow embedding of \<^verbatim>\<open>src/framework/Administration/src/ROSUtil/_Interface.py\<close>
  (Python 2). Objects are records, one per class, a subclass extending the record of its
  base class. A method takes the object and returns it, updated, next to its result. An
  exception is the \<open>Inl\<close> of a sum; a call that does not return is \<open>None\<close>.
  Byte strings (Python 2 \<^verbatim>\<open>str\<close>) are \<open>string\<close>: a \<open>char\<close> is one byte.
  The locks of the source guard single dictionary and slot accesses; the methods are
  modelled as they run in one thread. The classes modelled are \<^verbatim>\<open>InterfaceBase\<close>,
  \<^verbatim>\<open>ServiceInterface\<close> with its \<^verbatim>\<open>ServiceTask\<close> (without \<^verbatim>\<open>run\<close>, the body of the
  thread) and \<^verbatim>\<open>PublisherInterface\<close>. What the module imports (the manager, the
  middleware, \<^verbatim>\<open>generateID\<close>) is a parameter of the method that calls it.
\<close>

subsection \<open>Values, exceptions and results\<close>

type_synonym bytes = string

text \<open>
  The exceptions the module raises itself (\<^verbatim>\<open>InternalError\<close>, \<^verbatim>\<open>SerializationError\<close>),
  the ones the interpreter raises on the way (\<^verbatim>\<open>AttributeError\<close> with the attribute's
  name, \<^verbatim>\<open>TypeError\<close>, \<^verbatim>\<open>struct.error\<close>, \<^verbatim>\<open>ValueError\<close>), and the ones the
  middleware raises (\<^verbatim>\<open>rospy.ROSInterruptException\<close>, \<^verbatim>\<open>rospy.ROSSerializationException\<close>,
  any other).
\<close>

datatype error =
    InternalError string
  | SerializationError string
  | StructError string
  | AttributeError string
  | TypeError string
  | ValueError
  | ROSInterruptException
  | ROSSerializationException
  | OtherException string

text \<open>
  The Python values that are stored in a task's attributes or returned by a method:
  \<^verbatim>\<open>None\<close>, a boolean, a byte string, a \<^verbatim>\<open>threading.Event\<close> (with its flag), a
  reference to a \<^verbatim>\<open>ServiceInterface\<close> (by the interface's name) and a class object (by
  the class's name).
\<close>

datatype pyval =
    PNone
  | PBool bool
  | PStr bytes
  | PEvent bool
  | PSrvRef bytes
  | PClass string

text \<open>Python's truth value of an object, as \<^verbatim>\<open>if x:\<close> and \<^verbatim>\<open>not x\<close> test it.\<close>

fun truthy :: "pyval \<Rightarrow> bool" where
  "truthy PNone = False"
| "truthy (PBool b) = b"
| "truthy (PStr s) = (s \<noteq> [])"
| "truthy (PEvent _) = True"
| "truthy (PSrvRef _) = True"
| "truthy (PClass _) = True"

text \<open>\<^verbatim>\<open>str(x)\<close>, used where a stored value becomes the message of an exception.\<close>

fun py_str :: "pyval \<Rightarrow> string" where
  "py_str PNone = ''None''"
| "py_str (PBool b) = (if b then ''True'' else ''False'')"
| "py_str (PStr s) = s"
| "py_str (PEvent _) = ''<threading._Event object>''"
| "py_str (PSrvRef n) = ''<ServiceInterface object>''"
| "py_str (PClass c) = c"

text \<open>
  The result of a method call on an object of type \<open>'s\<close>: \<open>None\<close> when the call does
  not return, otherwise the exception raised or the value returned, and the object as the
  call leaves it.
\<close>

type_synonym ('a, 's) comp = "((error + 'a) \<times> 's) option"

subsection \<open>InterfaceBase\<close>

text \<open>
  \<^verbatim>\<open>InterfaceBase.__init__\<close> sets three attributes. \<open>manager\<close> is \<^verbatim>\<open>self._manager\<close>:
  \<open>None\<close> is Python's \<^verbatim>\<open>None\<close>, \<open>Some m\<close> a Manager instance. The Manager class is not
  in the source; its instances are objects, which Python takes as true in \<^verbatim>\<open>if self._manager\<close>.
\<close>

record 'm InterfaceBase =
  interfaceName :: bytes
  manager :: "'m option"
  ready :: bool

definition InterfaceBase_init :: "bytes \<Rightarrow> 'm InterfaceBase" where
  "InterfaceBase_init name = \<lparr>interfaceName = name, manager = None, ready = False\<rparr>"

text \<open>\<^verbatim>\<open>registerManager\<close>: raises when a manager is bound, binds the manager otherwise.\<close>

definition registerManager ::
  "('m, 'z) InterfaceBase_scheme \<Rightarrow> 'm \<Rightarrow> (unit, ('m, 'z) InterfaceBase_scheme) comp" where
  "registerManager self m =
     (case manager self of
        Some _ \<Rightarrow> Some (Inl (InternalError ''There is already a manager registered.''), self)
      | None \<Rightarrow> Some (Inr (), self\<lparr>manager := Some m\<rparr>))"

text \<open>
  A sequence of \<^verbatim>\<open>registerManager\<close> calls on one object, each call's outcome kept (the
  caller catches the exception and goes on).
\<close>

fun registerManager_calls ::
  "('m, 'z) InterfaceBase_scheme \<Rightarrow> 'm list \<Rightarrow>
     ((error + unit) list \<times> ('m, 'z) InterfaceBase_scheme) option" where
  "registerManager_calls self [] = Some ([], self)"
| "registerManager_calls self (m # ms) =
     (case registerManager self m of
        None \<Rightarrow> None
      | Some (r, self') \<Rightarrow>
          (case registerManager_calls self' ms of
             None \<Rightarrow> None
           | Some (rs, self'') \<Rightarrow> Some (r # rs, self'')))"

text \<open>
  The hooks a subclass overrides. \<^verbatim>\<open>_start\<close> and \<^verbatim>\<open>_stop\<close> do nothing in the base
  class; \<^verbatim>\<open>_send\<close> and \<^verbatim>\<open>_receive\<close> raise.
\<close>

definition InterfaceBase_start_hook :: "'s \<Rightarrow> (unit, 's) comp" where
  "InterfaceBase_start_hook self = Some (Inr (), self)"

definition InterfaceBase_stop_hook :: "'s \<Rightarrow> (unit, 's) comp" where
  "InterfaceBase_stop_hook self = Some (Inr (), self)"

definition InterfaceBase_send_hook :: "'s \<Rightarrow> bytes \<Rightarrow> ('a, 's) comp" where
  "InterfaceBase_send_hook self msg =
     Some (Inl (InternalError ''Interface does not support sending of a message.''), self)"

definition InterfaceBase_receive_hook :: "'s \<Rightarrow> bytes \<Rightarrow> ('a, 's) comp" where
  "InterfaceBase_receive_hook self taskID =
     Some (Inl (InternalError ''Interface does not support receiving of a message.''), self)"

text \<open>
  \<^verbatim>\<open>start\<close> and \<^verbatim>\<open>stop\<close>. The manager's \<^verbatim>\<open>registerInterface\<close> and
  \<^verbatim>\<open>unregisterInterface\<close> are parameters: they take the manager and the interface's name
  and give the manager back.
\<close>

definition InterfaceBase_start ::
  "(('m, 'z) InterfaceBase_scheme \<Rightarrow> (unit, ('m, 'z) InterfaceBase_scheme) comp) \<Rightarrow>
   ('m \<Rightarrow> bytes \<Rightarrow> 'm) \<Rightarrow> ('m, 'z) InterfaceBase_scheme \<Rightarrow>
   (unit, ('m, 'z) InterfaceBase_scheme) comp" where
  "InterfaceBase_start start_hook registerInterface self =
     (case manager self of
        None \<Rightarrow>
          Some (Inl (InternalError
            ''Can not start an interface without a registered manager.''), self)
      | Some _ \<Rightarrow>
          if ready self then Some (Inr (), self)
          else
            (case start_hook self of
               None \<Rightarrow> None
             | Some (Inl e, self1) \<Rightarrow> Some (Inl e, self1)
             | Some (Inr _, self1) \<Rightarrow>
                 (case manager self1 of
                    None \<Rightarrow> Some (Inl (AttributeError ''registerInterface''), self1)
                  | Some m \<Rightarrow>
                      Some (Inr (), self1\<lparr>manager := Some (registerInterface m (interfaceName self1)),
                                           ready := True\<rparr>))))"

definition InterfaceBase_stop ::
  "(('m, 'z) InterfaceBase_scheme \<Rightarrow> (unit, ('m, 'z) InterfaceBase_scheme) comp) \<Rightarrow>
   ('m \<Rightarrow> bytes \<Rightarrow> 'm) \<Rightarrow> ('m, 'z) InterfaceBase_scheme \<Rightarrow>
   (unit, ('m, 'z) InterfaceBase_scheme) comp" where
  "InterfaceBase_stop stop_hook unregisterInterface self =
     (if \<not> ready self then Some (Inr (), self)
      else
        (case stop_hook self of
           None \<Rightarrow> None
         | Some (Inl e, self1) \<Rightarrow> Some (Inl e, self1)
         | Some (Inr _, self1) \<Rightarrow>
             (let self2 = self1\<lparr>ready := False\<rparr> in
              case manager self2 of
                None \<Rightarrow> Some (Inl (AttributeError ''unregisterInterface''), self2)
              | Some m \<Rightarrow>
                  Some (Inr (), self2\<lparr>manager := Some (unregisterInterface m (interfaceName self2))\<rparr>))))"

text \<open>
  \<^verbatim>\<open>send\<close> and \<^verbatim>\<open>receive\<close>, with the subclass's \<^verbatim>\<open>_send\<close> and \<^verbatim>\<open>_receive\<close> as
  the first argument. The guard is the source's: \<^verbatim>\<open>if self.ready: raise ...\<close>.
\<close>

definition InterfaceBase_send ::
  "(('m, 'z) InterfaceBase_scheme \<Rightarrow> bytes \<Rightarrow> ('a, ('m, 'z) InterfaceBase_scheme) comp) \<Rightarrow>
   ('m, 'z) InterfaceBase_scheme \<Rightarrow> bytes \<Rightarrow> ('a, ('m, 'z) InterfaceBase_scheme) comp" where
  "InterfaceBase_send send_hook self msg =
     (if ready self
      then Some (Inl (InternalError ''Interface is not ready to send a message.''), self)
      else send_hook self msg)"

definition InterfaceBase_receive ::
  "(('m, 'z) InterfaceBase_scheme \<Rightarrow> bytes \<Rightarrow> ('a, ('m, 'z) InterfaceBase_scheme) comp) \<Rightarrow>
   ('m, 'z) InterfaceBase_scheme \<Rightarrow> bytes \<Rightarrow> ('a, ('m, 'z) InterfaceBase_scheme) comp" where
  "InterfaceBase_receive receive_hook self taskID =
     (if ready self
      then Some (Inl (InternalError ''Interface is not ready to receive a message.''), self)
      else receive_hook self taskID)"

subsection \<open>The wire descriptor\<close>

text \<open>
  Modelled from the spec: \<^verbatim>\<open>ContentDefinition.LEN_I\<close> and \<^verbatim>\<open>ContentDefinition.STRUCT_I\<close>
  are imported by the module and are not in the source. The spec (section 6) gives the
  length field four bytes; it is read here as an unsigned integer in network byte order.
  \<^verbatim>\<open>STRUCT_I.unpack\<close> raises \<^verbatim>\<open>struct.error\<close> unless it is given exactly four bytes, and
  \<^verbatim>\<open>STRUCT_I.pack\<close> raises it for a number that does not fit.
\<close>

definition LEN_I :: nat where
  "LEN_I = 4"

definition STRUCT_I_unpack :: "bytes \<Rightarrow> error + nat" where
  "STRUCT_I_unpack bs =
     (case bs of
        [a, b, c, d] \<Rightarrow> Inr (((of_char a * 256 + of_char b) * 256 + of_char c) * 256 + of_char d)
      | _ \<Rightarrow> Inl (StructError ''unpack requires a string argument of length 4''))"

definition STRUCT_I_pack :: "nat \<Rightarrow> error + bytes" where
  "STRUCT_I_pack n =
     (if n < 2 ^ 32
      then Inr [char_of (n div 2 ^ 24), char_of (n div 2 ^ 16), char_of (n div 2 ^ 8), char_of n]
      else Inl (StructError ''integer out of range for I format code''))"

text \<open>
  The slice \<^verbatim>\<open>data[start:end]\<close> of a byte string, for indices that are not negative:
  it is cut short at the end of the string and never raises.
\<close>

definition slice :: "'a list \<Rightarrow> nat \<Rightarrow> nat \<Rightarrow> 'a list" where
  "slice data start end' = take (end' - start) (drop start data)"

text \<open>
  \<^verbatim>\<open>InterfaceBase.deserialize\<close>, a class method: \<open>cls\<close> is the class it is called on,
  as the function from a name to the new instance.
\<close>

definition InterfaceBase_deserialize :: "(bytes \<Rightarrow> 'obj) \<Rightarrow> bytes \<Rightarrow> error + 'obj" where
  "InterfaceBase_deserialize cls data =
     (let start = 0; end' = LEN_I in
      case STRUCT_I_unpack (slice data start end') of
        Inl (StructError e) \<Rightarrow>
          Inl (SerializationError (''Could not deserialize Interface: '' @ e))
      | Inl e \<Rightarrow> Inl e
      | Inr length' \<Rightarrow>
          (let start = end'; end' = end' + length'; name = slice data start end'
           in Inr (cls name)))"

text \<open>
  Modelled from the spec: the source has no function that writes a descriptor. Section 6
  gives the format: a 4-byte length field followed by that many bytes for the interface
  name; for a service interface a second pair of the same form follows, with the
  service-type identifier.
\<close>

definition serialize_field :: "bytes \<Rightarrow> error + bytes" where
  "serialize_field s =
     (case STRUCT_I_pack (length s) of Inl e \<Rightarrow> Inl e | Inr len \<Rightarrow> Inr (len @ s))"

definition serialize_interface :: "bytes \<Rightarrow> error + bytes" where
  "serialize_interface name = serialize_field name"

definition serialize_service :: "bytes \<Rightarrow> bytes \<Rightarrow> error + bytes" where
  "serialize_service name srv_type =
     (case serialize_field name of
        Inl e \<Rightarrow> Inl e
      | Inr a \<Rightarrow> (case serialize_field srv_type of Inl e \<Rightarrow> Inl e | Inr b \<Rightarrow> Inr (a @ b)))"

text \<open>
  The buffers the spec calls well formed: a 4-byte length followed by (at least) that
  many bytes.
\<close>

definition well_formed_descriptor :: "bytes \<Rightarrow> bool" where
  "well_formed_descriptor data =
     (case STRUCT_I_unpack (take 4 data) of
        Inl _ \<Rightarrow> False
      | Inr n \<Rightarrow> 4 + n \<le> length data)"

subsection \<open>ServiceTask\<close>

text \<open>
  A \<^verbatim>\<open>ServiceTask\<close> is an object of a class with \<^verbatim>\<open>__slots__\<close> and the base
  \<^verbatim>\<open>object\<close>: it has no \<^verbatim>\<open>__dict__\<close>, so its attributes are the slots and nothing
  else. The object is the map from an attribute's name to its value, a slot that was never
  assigned being absent. Assigning an attribute that is not a slot raises
  \<^verbatim>\<open>AttributeError\<close>, and so does reading an attribute that has no value.
\<close>

type_synonym pyobject = "string \<rightharpoonup> pyval"

definition ServiceTask_slots :: "string list" where
  "ServiceTask_slots = [''_completed'', ''_error'', ''_srv'', ''_msg'', ''_id'']"

definition setattr :: "string list \<Rightarrow> pyobject \<Rightarrow> string \<Rightarrow> pyval \<Rightarrow> error + pyobject" where
  "setattr slots obj name v =
     (if name \<in> set slots then Inr (obj(name \<mapsto> v)) else Inl (AttributeError name))"

definition getattr :: "pyobject \<Rightarrow> string \<Rightarrow> error + pyval" where
  "getattr obj name = (case obj name of None \<Rightarrow> Inl (AttributeError name) | Some v \<Rightarrow> Inr v)"

text \<open>Sequencing of statements that may raise: the first exception ends the block.\<close>

definition and_then :: "error + 'a \<Rightarrow> ('a \<Rightarrow> error + 'b) \<Rightarrow> error + 'b" where
  "and_then r f = (case r of Inl e \<Rightarrow> Inl e | Inr x \<Rightarrow> f x)"

text \<open>
  \<^verbatim>\<open>ServiceTask.__init__(self, srv, msg)\<close>: seven assignments, in the source's order, on
  the object \<^verbatim>\<open>__new__\<close> has made (no slot assigned).
\<close>

definition ServiceTask_init :: "bytes \<Rightarrow> bytes \<Rightarrow> error + pyobject" where
  "ServiceTask_init srv msg =
     and_then (setattr ServiceTask_slots Map.empty ''_id'' PNone) (\<lambda>t.
     and_then (setattr ServiceTask_slots t ''_srv'' (PSrvRef srv)) (\<lambda>t.
     and_then (setattr ServiceTask_slots t ''_msg'' (PStr msg)) (\<lambda>t.
     and_then (setattr ServiceTask_slots t ''_completed'' (PBool False)) (\<lambda>t.
     and_then (setattr ServiceTask_slots t ''_error'' (PBool False)) (\<lambda>t.
     and_then (setattr ServiceTask_slots t ''_hasID'' (PEvent False)) (\<lambda>t.
     and_then (setattr ServiceTask_slots t ''_signalCompletion'' (PBool False)) (\<lambda>t.
     Inr t)))))))"

text \<open>
  \<^verbatim>\<open>setID\<close>: reads \<^verbatim>\<open>self._hasID\<close>, raises when the event is set, assigns
  \<^verbatim>\<open>self._id\<close> and sets the event (a change of the event object, not an assignment).
\<close>

definition setID :: "pyobject \<Rightarrow> bytes \<Rightarrow> error + pyobject" where
  "setID t taskID =
     and_then (getattr t ''_hasID'') (\<lambda>ev.
       case ev of
         PEvent flag \<Rightarrow>
           if flag then Inl (InternalError ''Task already has an ID.'')
           else and_then (setattr ServiceTask_slots t ''_id'' (PStr taskID)) (\<lambda>t.
                Inr (t(''_hasID'' \<mapsto> PEvent True)))
       | _ \<Rightarrow> Inl (AttributeError ''isSet''))"

text \<open>
  \<^verbatim>\<open>getResult\<close>: the assignment \<^verbatim>\<open>self._signalCompleted = True\<close> comes first, then the
  three branches. The task is returned as the call leaves it.
\<close>

definition getResult :: "pyobject \<Rightarrow> (error + pyval) \<times> pyobject" where
  "getResult t =
     (case setattr ServiceTask_slots t ''_signalCompleted'' (PBool True) of
        Inl e \<Rightarrow> (Inl e, t)
      | Inr t1 \<Rightarrow>
          (and_then (getattr t1 ''_completed'') (\<lambda>completed.
             if truthy completed then getattr t1 ''_msg''
             else
               and_then (getattr t1 ''_error'') (\<lambda>err.
                 if truthy err
                 then and_then (getattr t1 ''_msg'') (\<lambda>msg. Inl (InternalError (py_str msg)))
                 else Inr PNone)),
           t1))"

subsection \<open>ServiceInterface\<close>

text \<open>
  \<open>srvCls\<close> is the service class \<^verbatim>\<open>genpy.message.get_service_class\<close> found, with its
  request and response classes named; \<open>tasks\<close> is the registry \<^verbatim>\<open>self._tasks\<close>.
\<close>

record srv_class =
  srv_type :: bytes
  request_class :: string
  response_class :: string

record 'm ServiceInterface = "'m InterfaceBase" +
  srvCls :: srv_class
  tasks :: "bytes \<rightharpoonup> pyobject"

text \<open>
  \<^verbatim>\<open>ServiceInterface.__init__(self, cls, interfaceName)\<close>. The library function
  \<^verbatim>\<open>genpy.message.get_service_class\<close> is a parameter: it raises, or returns a class or
  \<^verbatim>\<open>None\<close>.
\<close>

definition ServiceInterface_init ::
  "(bytes \<Rightarrow> error + srv_class option) \<Rightarrow> bytes \<Rightarrow> bytes \<Rightarrow> error + 'm ServiceInterface" where
  "ServiceInterface_init get_service_class cls interfaceName' =
     (case get_service_class cls of
        Inl ValueError \<Rightarrow> Inl (SerializationError ''Could not load Service class.'')
      | Inl e \<Rightarrow> Inl e
      | Inr None \<Rightarrow> Inl (AttributeError ''_request_class'')
      | Inr (Some c) \<Rightarrow>
          Inr \<lparr>interfaceName = interfaceName', manager = None, ready = False,
               srvCls = c\<lparr>request_class := ''rospy.AnyMsg'', response_class := ''rospy.AnyMsg''\<rparr>,
               tasks = Map.empty\<rparr>)"

text \<open>
  Calling a Python value: a class object runs its constructor on the arguments; a byte
  string is not callable.
\<close>

definition py_call :: "(pyval list \<Rightarrow> error + 'obj) \<Rightarrow> pyval \<Rightarrow> pyval list \<Rightarrow> error + 'obj" where
  "py_call construct f args =
     (case f of
        PClass _ \<Rightarrow> construct args
      | PStr _ \<Rightarrow> Inl (TypeError ''str object is not callable'')
      | PNone \<Rightarrow> Inl (TypeError ''NoneType object is not callable'')
      | PBool _ \<Rightarrow> Inl (TypeError ''bool object is not callable'')
      | PEvent _ \<Rightarrow> Inl (TypeError ''_Event object is not callable'')
      | PSrvRef _ \<Rightarrow> Inl (TypeError ''ServiceInterface object is not callable''))"

text \<open>The constructor of \<^verbatim>\<open>ServiceInterface\<close> on an argument list.\<close>

definition ServiceInterface_new ::
  "(bytes \<Rightarrow> error + srv_class option) \<Rightarrow> pyval list \<Rightarrow> error + 'm ServiceInterface" where
  "ServiceInterface_new get_service_class args =
     (case args of
        [PStr c, PStr n] \<Rightarrow> ServiceInterface_init get_service_class c n
      | [c, n] \<Rightarrow> Inl (TypeError ''argument is not a string'')
      | _ \<Rightarrow> Inl (TypeError ''__init__() takes exactly 3 arguments''))"

text \<open>
  \<^verbatim>\<open>ServiceInterface.deserialize(cls, data)\<close>. The variable \<open>cls\<close> holds the class the
  method is called on until the source assigns the second field to it;
  \<^verbatim>\<open>return cls(cls, name)\<close> then calls what the variable holds.
\<close>

definition ServiceInterface_deserialize ::
  "(pyval list \<Rightarrow> error + 'obj) \<Rightarrow> pyval \<Rightarrow> bytes \<Rightarrow> error + 'obj" where
  "ServiceInterface_deserialize construct cls data =
     (let start = 0; end' = LEN_I in
      case STRUCT_I_unpack (slice data start end') of
        Inl (StructError e) \<Rightarrow>
          Inl (SerializationError (''Could not deserialize Interface: '' @ e))
      | Inl e \<Rightarrow> Inl e
      | Inr length' \<Rightarrow>
          (let start = end'; end' = end' + length'; name = slice data start end';
               start = end'; end' = end' + LEN_I
           in case STRUCT_I_unpack (slice data start end') of
                Inl (StructError e) \<Rightarrow>
                  Inl (SerializationError (''Could not deserialize Interface: '' @ e))
              | Inl e \<Rightarrow> Inl e
              | Inr length' \<Rightarrow>
                  (let start = end'; end' = end' + length';
                       cls = PStr (slice data start end')
                   in py_call construct cls [cls, PStr name])))"

text \<open>
  The loop of \<^verbatim>\<open>_send\<close> that finds an identifier. \<^verbatim>\<open>MiscUtility.generateID\<close> is not
  in the source: \<open>generateID n\<close> is what its \<open>n\<close>-th call returns, and the number of
  calls made so far is passed along. The loop ends when an identifier is not a key of the
  registry; it need not end.
\<close>

partial_function (option) allocate_uid ::
  "(nat \<Rightarrow> bytes) \<Rightarrow> (bytes \<rightharpoonup> pyobject) \<Rightarrow> nat \<Rightarrow> (bytes \<times> nat) option" where
  "allocate_uid generateID ts n =
     (let uid = generateID n in
      if uid \<notin> dom ts then Some (uid, Suc n) else allocate_uid generateID ts (Suc n))"

text \<open>
  \<^verbatim>\<open>ServiceInterface._send\<close>. The manager's \<^verbatim>\<open>runTaskInSeparateThread\<close> is a
  parameter: it takes the manager and the task and gives the manager back. The result
  carries the number of \<^verbatim>\<open>generateID\<close> calls made so far.
\<close>

definition ServiceInterface_send_hook ::
  "('m \<Rightarrow> pyobject \<Rightarrow> 'm) \<Rightarrow> (nat \<Rightarrow> bytes) \<Rightarrow> nat \<Rightarrow>
   ('m, 'z) ServiceInterface_scheme \<Rightarrow> bytes \<Rightarrow>
   (bytes, ('m, 'z) ServiceInterface_scheme \<times> nat) comp" where
  "ServiceInterface_send_hook runTaskInSeparateThread generateID n self msg =
     (case ServiceTask_init (interfaceName self) msg of
        Inl e \<Rightarrow> Some (Inl e, self, n)
      | Inr task \<Rightarrow>
          (case manager self of
             None \<Rightarrow> Some (Inl (AttributeError ''runTaskInSeparateThread''), self, n)
           | Some m \<Rightarrow>
               (let self1 = self\<lparr>manager := Some (runTaskInSeparateThread m task)\<rparr> in
                case allocate_uid generateID (tasks self1) n of
                  None \<Rightarrow> None
                | Some (uid, n') \<Rightarrow>
                    (let self2 = self1\<lparr>tasks := (tasks self1)(uid \<mapsto> task)\<rparr> in
                     case setID task uid of
                       Inl e \<Rightarrow> Some (Inl e, self2, n')
                     | Inr task' \<Rightarrow>
                         Some (Inr uid, self2\<lparr>tasks := (tasks self2)(uid \<mapsto> task')\<rparr>, n')))))"

text \<open>
  A sequence of \<^verbatim>\<open>_send\<close> calls on one interface, each call's outcome kept (the caller
  catches the exception and goes on).
\<close>

fun ServiceInterface_send_calls ::
  "('m \<Rightarrow> pyobject \<Rightarrow> 'm) \<Rightarrow> (nat \<Rightarrow> bytes) \<Rightarrow> nat \<Rightarrow>
   ('m, 'z) ServiceInterface_scheme \<Rightarrow> bytes list \<Rightarrow>
   ((error + bytes) list \<times> ('m, 'z) ServiceInterface_scheme \<times> nat) option" where
  "ServiceInterface_send_calls run gen n self [] = Some ([], self, n)"
| "ServiceInterface_send_calls run gen n self (msg # msgs) =
     (case ServiceInterface_send_hook run gen n self msg of
        None \<Rightarrow> None
      | Some (r, self', n') \<Rightarrow>
          (case ServiceInterface_send_calls run gen n' self' msgs of
             None \<Rightarrow> None
           | Some (rs, self'', n'') \<Rightarrow> Some (r # rs, self'', n'')))"

text \<open>
  \<^verbatim>\<open>ServiceInterface._receive\<close>: the lookup's \<^verbatim>\<open>KeyError\<close> becomes an
  \<^verbatim>\<open>InternalError\<close>; any other exception of \<^verbatim>\<open>getResult\<close> passes; a result that is
  not true becomes the empty string.
\<close>

definition ServiceInterface_receive_hook ::
  "('m, 'z) ServiceInterface_scheme \<Rightarrow> bytes \<Rightarrow> (pyval, ('m, 'z) ServiceInterface_scheme) comp" where
  "ServiceInterface_receive_hook self taskID =
     (case tasks self taskID of
        None \<Rightarrow> Some (Inl (InternalError ''Invalid taskID used.''), self)
      | Some t \<Rightarrow>
          (case getResult t of
             (Inl e, t') \<Rightarrow> Some (Inl e, self\<lparr>tasks := (tasks self)(taskID \<mapsto> t')\<rparr>)
           | (Inr msg, t') \<Rightarrow>
               Some (Inr (if \<not> truthy msg then PStr [] else msg),
                     self\<lparr>tasks := (tasks self)(taskID \<mapsto> t')\<rparr>)))"

subsection \<open>PublisherInterface\<close>

text \<open>
  \<open>publisher\<close> is \<^verbatim>\<open>self._publisher\<close>: \<open>None\<close> while the attribute does not exist
  (before \<^verbatim>\<open>_start\<close>), \<open>Some None\<close> when it is Python's \<^verbatim>\<open>None\<close> (after
  \<^verbatim>\<open>_stop\<close>), \<open>Some (Some p)\<close> a \<^verbatim>\<open>rospy.Publisher\<close>.
\<close>

record ('m, 'p) PublisherInterface = "'m InterfaceBase" +
  publisher :: "'p option option"

text \<open>
  \<^verbatim>\<open>PublisherInterface._start\<close> and \<^verbatim>\<open>_stop\<close>. \<^verbatim>\<open>rospy.Publisher\<close> is a
  parameter; the publisher's \<^verbatim>\<open>unregister\<close> is taken to return, and the publisher is
  dropped after it.
\<close>

definition PublisherInterface_start_hook ::
  "(bytes \<Rightarrow> 'p) \<Rightarrow> ('m, 'p, 'z) PublisherInterface_scheme \<Rightarrow>
   (unit, ('m, 'p, 'z) PublisherInterface_scheme) comp" where
  "PublisherInterface_start_hook Publisher self =
     Some (Inr (), self\<lparr>publisher := Some (Some (Publisher (interfaceName self)))\<rparr>)"

definition PublisherInterface_stop_hook ::
  "('m, 'p, 'z) PublisherInterface_scheme \<Rightarrow> (unit, ('m, 'p, 'z) PublisherInterface_scheme) comp" where
  "PublisherInterface_stop_hook self =
     (case publisher self of
        None \<Rightarrow> Some (Inl (AttributeError ''_publisher''), self)
      | Some None \<Rightarrow> Some (Inl (AttributeError ''unregister''), self)
      | Some (Some p) \<Rightarrow> Some (Inr (), self\<lparr>publisher := Some None\<rparr>))"

text \<open>
  \<^verbatim>\<open>PublisherInterface._send\<close>. The middleware's \<^verbatim>\<open>publish\<close> is a parameter: on a
  publisher and a payload it returns or raises, and gives the publisher back.
\<close>

definition PublisherInterface_send_hook ::
  "('p \<Rightarrow> bytes \<Rightarrow> (error + unit) \<times> 'p) \<Rightarrow> ('m, 'p, 'z) PublisherInterface_scheme \<Rightarrow> bytes \<Rightarrow>
   (bytes, ('m, 'p, 'z) PublisherInterface_scheme) comp" where
  "PublisherInterface_send_hook publish self msgData =
     (case publisher self of
        None \<Rightarrow> Some (Inl (AttributeError ''_publisher''), self)
      | Some None \<Rightarrow> Some (Inl (AttributeError ''publish''), self)
      | Some (Some p) \<Rightarrow>
          (case publish p msgData of
             (Inr _, p') \<Rightarrow> Some (Inr [], self\<lparr>publisher := Some (Some p')\<rparr>)
           | (Inl ROSInterruptException, p') \<Rightarrow> Some (Inr [], self\<lparr>publisher := Some (Some p')\<rparr>)
           | (Inl ROSSerializationException, p') \<Rightarrow>
               Some (Inl (InternalError ''Message could not be serialized by ROS.''),
                     self\<lparr>publisher := Some (Some p')\<rparr>)
           | (Inl e, p') \<Rightarrow> Some (Inl e, self\<lparr>publisher := Some (Some p')\<rparr>)))"

subsection \<open>Example objects\<close>

text \<open>
  A service interface named \<^verbatim>\<open>arm/grasp\<close> as its constructor and
  \<^verbatim>\<open>registerManager\<close> leave it: a manager bound, not started, its registry empty.
\<close>

definition grasp_service :: "nat ServiceInterface" where
  "grasp_service =
     \<lparr>interfaceName = ''arm/grasp'', manager = Some 0, ready = False,
      srvCls = \<lparr>srv_type = ''pkg/GraspSrv'', request_class = ''rospy.AnyMsg'',
                response_class = ''rospy.AnyMsg''\<rparr>,
      tasks = Map.empty\<rparr>"

text \<open>
  A publisher interface that was started, and a \<^verbatim>\<open>publish\<close> that is interrupted on the
  payload \<^verbatim>\<open>stop\<close>, fails to serialize the payload \<^verbatim>\<open>bad\<close> and succeeds otherwise.
\<close>

definition chatter_publisher :: "(nat, nat) PublisherInterface" where
  "chatter_publisher =
     \<lparr>interfaceName = ''chatter'', manager = Some 0, ready = True, publisher = Some (Some 7)\<rparr>"

definition example_publish :: "nat \<Rightarrow> bytes \<Rightarrow> (error + unit) \<times> nat" where
  "example_publish p msgData =
     (if msgData = ''stop'' then (Inl ROSInterruptException, p)
      else if msgData = ''bad'' then (Inl ROSSerializationException, p)
      else (Inr (), Suc p))"

section \<open>Properties\<close>

subsection \<open>Shared lemmas\<close>

lemma bytes_of_nat:
  fixes n :: nat
  shows "((n div 16777216 * 256 + n div 65536 mod 256) * 256 + n div 256 mod 256) * 256
           + n mod 256 = n"
proof -
  have b: "n div 65536 = n div 256 div 256"
    by (simp add: div_mult2_eq [symmetric])
  have c: "n div 16777216 = n div 256 div 256 div 256"
    by (simp add: div_mult2_eq [symmetric])
  show ?thesis
    unfolding b c by (simp add: algebra_simps)
qed

lemma STRUCT_I_unpack_pack:
  assumes "n < 2 ^ 32"
  shows "\<exists>bs. STRUCT_I_pack n = Inr bs \<and> length bs = 4 \<and> STRUCT_I_unpack bs = Inr n"
proof -
  have top: "n div 16777216 mod 256 = n div 16777216"
    using assms by (simp add: less_mult_imp_div_less)
  show ?thesis
    using assms top bytes_of_nat [of n] by (simp add: STRUCT_I_pack_def STRUCT_I_unpack_def)
qed

lemma STRUCT_I_unpack_short:
  "length bs < 4 \<Longrightarrow>
   STRUCT_I_unpack bs = Inl (StructError ''unpack requires a string argument of length 4'')"
  by (auto simp: STRUCT_I_unpack_def split: list.splits)

lemma STRUCT_I_unpack_four:
  "length bs = 4 \<Longrightarrow> \<exists>n. STRUCT_I_unpack bs = Inr n"
  by (auto simp: STRUCT_I_unpack_def split: list.splits)

lemma InterfaceBase_deserialize_field:
  assumes "length len = 4" and "STRUCT_I_unpack len = Inr n"
  shows "InterfaceBase_deserialize cls (len @ rest) = Inr (cls (take n rest))"
  using assms by (simp add: InterfaceBase_deserialize_def slice_def LEN_I_def)

text \<open>
  The name of an interface survives the round trip through its descriptor, for every name
  whose length fits the length field.
\<close>

lemma InterfaceBase_deserialize_roundtrip:
  assumes "length name < 2 ^ 32"
  shows "\<exists>d. serialize_interface name = Inr d \<and>
             InterfaceBase_deserialize cls d = Inr (cls name)"
proof -
  from STRUCT_I_unpack_pack [OF assms] obtain bs where
    "STRUCT_I_pack (length name) = Inr bs" "length bs = 4"
    "STRUCT_I_unpack bs = Inr (length name)"
    by blast
  then show ?thesis
    by (simp add: serialize_interface_def serialize_field_def InterfaceBase_deserialize_field)
qed

lemma InterfaceBase_deserialize_camera_image:
  "\<exists>d. serialize_interface ''camera/image'' = Inr d \<and>
       InterfaceBase_deserialize InterfaceBase_init d = Inr (InterfaceBase_init ''camera/image'')"
  by (rule InterfaceBase_deserialize_roundtrip) simp

lemma py_call_bytes:
  "py_call construct (PStr s) args = Inl (TypeError ''str object is not callable'')"
  by (simp add: py_call_def)

text \<open>\<^verbatim>\<open>ServiceInterface.deserialize\<close> returns no object, whatever the buffer.\<close>

lemma ServiceInterface_deserialize_never_returns:
  "\<exists>e. ServiceInterface_deserialize construct cls data = Inl e"
  by (auto simp: ServiceInterface_deserialize_def Let_def py_call_bytes
      split: sum.splits error.splits)

lemma length_arm_grasp: "length ''arm/grasp'' = 9"
  by simp

lemma length_GraspSrv: "length ''pkg/GraspSrv'' = 12"
  by simp

lemma STRUCT_I_pack_9: "STRUCT_I_pack 9 = Inr [CHR 0x00, CHR 0x00, CHR 0x00, CHR 0x09]"
  by (simp add: STRUCT_I_pack_def char_of_def bit_0)

lemma STRUCT_I_pack_12: "STRUCT_I_pack 12 = Inr [CHR 0x00, CHR 0x00, CHR 0x00, CHR 0x0C]"
  by (simp add: STRUCT_I_pack_def char_of_def bit_0)

lemma serialize_arm_grasp:
  "serialize_service ''arm/grasp'' ''pkg/GraspSrv'' =
     Inr ([CHR 0x00, CHR 0x00, CHR 0x00, CHR 0x09] @ ''arm/grasp'' @
          [CHR 0x00, CHR 0x00, CHR 0x00, CHR 0x0C] @ ''pkg/GraspSrv'')"
  unfolding serialize_service_def serialize_field_def length_arm_grasp length_GraspSrv
    STRUCT_I_pack_9 STRUCT_I_pack_12
  by simp

lemma ServiceTask_init_AttributeError:
  "ServiceTask_init srv msg = Inl (AttributeError ''_hasID'')"
  by (simp add: ServiceTask_init_def and_then_def setattr_def ServiceTask_slots_def)

lemma getResult_AttributeError:
  "getResult t = (Inl (AttributeError ''_signalCompleted''), t)"
  by (simp add: getResult_def setattr_def ServiceTask_slots_def)

lemma ServiceInterface_send_hook_AttributeError:
  "ServiceInterface_send_hook run gen n self msg = Some (Inl (AttributeError ''_hasID''), self, n)"
  by (simp add: ServiceInterface_send_hook_def ServiceTask_init_AttributeError)

lemma ServiceInterface_send_calls_AttributeError:
  "ServiceInterface_send_calls run gen n self msgs =
     Some (map (\<lambda>_. Inl (AttributeError ''_hasID'')) msgs, self, n)"
  by (induction msgs) (simp_all add: ServiceInterface_send_hook_AttributeError)

text \<open>
  The registry of a service interface is empty when the constructor returns, and no method
  of the interface changes it: \<^verbatim>\<open>_send\<close> raises before it registers a task, and
  \<^verbatim>\<open>_receive\<close> on an empty registry finds no task. (\<^verbatim>\<open>ServiceInterface\<close> does not
  override \<^verbatim>\<open>_start\<close> and \<^verbatim>\<open>_stop\<close>.) So no state that the methods reach from a new
  interface has a registered task.
\<close>

lemma ServiceInterface_init_registry_empty:
  "ServiceInterface_init get_service_class cls name = Inr self \<Longrightarrow> tasks self = Map.empty"
  by (auto simp: ServiceInterface_init_def split: sum.splits error.splits option.splits)

lemma registerManager_keeps_registry:
  "registerManager self m = Some (r, self') \<Longrightarrow> tasks self' = tasks self"
  by (auto simp: registerManager_def split: option.splits)

lemma InterfaceBase_start_keeps_registry:
  "InterfaceBase_start InterfaceBase_start_hook registerInterface self = Some (r, self') \<Longrightarrow>
   tasks self' = tasks self"
  by (auto simp: InterfaceBase_start_def InterfaceBase_start_hook_def
      split: option.splits if_splits)

lemma InterfaceBase_stop_keeps_registry:
  "InterfaceBase_stop InterfaceBase_stop_hook unregisterInterface self = Some (r, self') \<Longrightarrow>
   tasks self' = tasks self"
  by (auto simp: InterfaceBase_stop_def InterfaceBase_stop_hook_def Let_def
      split: option.splits if_splits)

lemma ServiceInterface_send_hook_keeps_registry:
  "ServiceInterface_send_hook run gen n self msg = Some (r, self', n') \<Longrightarrow>
   tasks self' = tasks self"
  by (simp add: ServiceInterface_send_hook_AttributeError)

lemma ServiceInterface_receive_hook_empty_registry:
  "tasks self = Map.empty \<Longrightarrow>
   ServiceInterface_receive_hook self taskID =
     Some (Inl (InternalError ''Invalid taskID used.''), self)"
  by (simp add: ServiceInterface_receive_hook_def)

text \<open>
  The loop that finds an identifier: what it returns is not a key of the registry, and it
  returns as soon as \<^verbatim>\<open>generateID\<close> gives an identifier that is not a key.
\<close>

lemma allocate_uid_fresh:
  assumes "allocate_uid gen ts n = Some r"
  shows "ts (fst r) = None \<and> n < snd r"
proof (rule allocate_uid.raw_induct
    [where P = "\<lambda>gen ts n r. ts (fst r) = None \<and> n < snd r", OF _ assms])
  fix f :: "(nat \<Rightarrow> bytes) \<Rightarrow> (bytes \<rightharpoonup> pyobject) \<Rightarrow> nat \<Rightarrow> (bytes \<times> nat) option"
  fix gen' ts' n' r'
  assume ih: "\<And>g t k r. f g t k = Some r \<Longrightarrow> t (fst r) = None \<and> k < snd r"
    and step: "(let uid = gen' n' in
                if uid \<notin> dom ts' then Some (uid, Suc n') else f gen' ts' (Suc n')) = Some r'"
  show "ts' (fst r') = None \<and> n' < snd r'"
  proof (cases "gen' n' \<in> dom ts'")
    case True
    with step have "f gen' ts' (Suc n') = Some r'"
      by (simp add: Let_def)
    from ih [OF this] show ?thesis
      by simp
  next
    case False
    with step show ?thesis
      by (auto simp: Let_def domIff)
  qed
qed

lemma allocate_uid_returns:
  "ts (gen (n + k)) = None \<Longrightarrow> \<exists>r. allocate_uid gen ts n = Some r"
proof (induction k arbitrary: n)
  case 0
  then show ?case
    by (subst allocate_uid.simps) (simp add: domIff)
next
  case (Suc k)
  then have "\<exists>r. allocate_uid gen ts (Suc n) = Some r"
    by simp
  then show ?case
    by (subst allocate_uid.simps) (simp add: Let_def)
qed

lemma registerManager_calls_bound:
  "manager self = Some m \<Longrightarrow>
   registerManager_calls self ms =
     Some (map (\<lambda>_. Inl (InternalError ''There is already a manager registered.'')) ms, self)"
  by (induction ms) (simp_all add: registerManager_def)

subsection \<open>The readiness guard\<close>

text \<open>
  C1. The claim: \<^verbatim>\<open>send\<close> and \<^verbatim>\<open>receive\<close> raise \<^verbatim>\<open>InternalError\<close> while the
  interface is not ready and call the subclass's hook while it is ready. The source tests
  \<^verbatim>\<open>if self.ready\<close>: on an interface that is ready, \<^verbatim>\<open>send\<close> and \<^verbatim>\<open>receive\<close> raise
  the \<^verbatim>\<open>InternalError\<close> whose message says the interface is not ready, and on one that
  is not ready they call the hook, whatever the hook and the rest of the object are.
\<close>

theorem send_receive_raise_on_ready_interface:
  "InterfaceBase_send send_hook (self\<lparr>ready := True\<rparr>) msg =
     Some (Inl (InternalError ''Interface is not ready to send a message.''),
           self\<lparr>ready := True\<rparr>) \<and>
   InterfaceBase_receive receive_hook (self\<lparr>ready := True\<rparr>) taskID =
     Some (Inl (InternalError ''Interface is not ready to receive a message.''),
           self\<lparr>ready := True\<rparr>) \<and>
   InterfaceBase_send send_hook (self\<lparr>ready := False\<rparr>) msg =
     send_hook (self\<lparr>ready := False\<rparr>) msg \<and>
   InterfaceBase_receive receive_hook (self\<lparr>ready := False\<rparr>) taskID =
     receive_hook (self\<lparr>ready := False\<rparr>) taskID"
  by (simp add: InterfaceBase_send_def InterfaceBase_receive_def)

subsection \<open>Service tasks and the registry\<close>

text \<open>
  C2. For every service interface and every request payload, \<^verbatim>\<open>_send\<close> raises
  \<^verbatim>\<open>AttributeError\<close> and returns no correlation token: the constructor of the task
  assigns \<^verbatim>\<open>_hasID\<close> (and would assign \<^verbatim>\<open>_signalCompletion\<close>), which are not slots of
  the class. The interface is left as it was: nothing is handed to the manager, nothing is
  registered.
\<close>

theorem ServiceInterface_send_raises_AttributeError:
  "''_hasID'' \<notin> set ServiceTask_slots \<and>
   ''_signalCompletion'' \<notin> set ServiceTask_slots \<and>
   ServiceTask_init srv msg = Inl (AttributeError ''_hasID'') \<and>
   ServiceInterface_send_hook runTaskInSeparateThread generateID n self msg =
     Some (Inl (AttributeError ''_hasID''), self, n)"
  by (simp add: ServiceInterface_send_hook_AttributeError ServiceTask_init_AttributeError
      ServiceTask_slots_def)

text \<open>
  C4. The claim: after N calls of \<^verbatim>\<open>_send\<close> the registry holds N distinct correlation
  tokens. On the interface \<open>grasp_service\<close>, whose registry is empty, two calls both raise
  \<^verbatim>\<open>AttributeError\<close> and the registry is still empty.
\<close>

theorem send_calls_register_nothing:
  "ServiceInterface_send_calls runTaskInSeparateThread generateID 0 grasp_service
     [''open'', ''close''] =
     Some ([Inl (AttributeError ''_hasID''), Inl (AttributeError ''_hasID'')], grasp_service, 0) \<and>
   dom (tasks grasp_service) = {}"
  by (simp add: ServiceInterface_send_calls_AttributeError grasp_service_def)

text \<open>
  C5. For every service interface and every \<open>taskID\<close> that is not a key of its registry,
  \<^verbatim>\<open>_receive\<close> raises \<^verbatim>\<open>InternalError\<close>, and leaves the interface as it was.
\<close>

theorem ServiceInterface_receive_unknown_token:
  "tasks self taskID = None \<Longrightarrow>
   ServiceInterface_receive_hook self taskID =
     Some (Inl (InternalError ''Invalid taskID used.''), self)"
  by (simp add: ServiceInterface_receive_hook_def)

theorem ServiceInterface_receive_unknown_token_witness:
  "tasks grasp_service ''tok'' = None \<and>
   ServiceInterface_receive_hook grasp_service ''tok'' =
     Some (Inl (InternalError ''Invalid taskID used.''), grasp_service)"
proof -
  have unknown: "tasks grasp_service ''tok'' = None"
    by (simp add: grasp_service_def)
  from unknown ServiceInterface_receive_unknown_token [OF unknown] show ?thesis
    by (rule conjI)
qed

subsection \<open>The manager\<close>

text \<open>
  C8. On every interface with no manager bound, the first call of \<^verbatim>\<open>registerManager\<close>
  binds its argument, and every later call raises \<^verbatim>\<open>InternalError\<close> and leaves the
  bound manager as it is: after the calls with \<open>m\<close> and then with each of \<open>ms\<close>, the
  first has returned, the others have raised, and the manager is \<open>m\<close>.
\<close>

theorem registerManager_binds_once:
  "manager self = None \<Longrightarrow>
   registerManager_calls self (m # ms) =
     Some (Inr () # map (\<lambda>_. Inl (InternalError ''There is already a manager registered.'')) ms,
           self\<lparr>manager := Some m\<rparr>)"
  by (simp add: registerManager_def registerManager_calls_bound)

theorem registerManager_binds_once_witness:
  "manager (InterfaceBase_init ''camera/image'' :: nat InterfaceBase) = None \<and>
   registerManager_calls (InterfaceBase_init ''camera/image'' :: nat InterfaceBase) [1, 2, 1] =
     Some ([Inr (), Inl (InternalError ''There is already a manager registered.''),
            Inl (InternalError ''There is already a manager registered.'')],
           \<lparr>interfaceName = ''camera/image'', manager = Some 1, ready = False\<rparr>)"
proof -
  have unbound: "manager (InterfaceBase_init ''camera/image'' :: nat InterfaceBase) = None"
    by (simp add: InterfaceBase_init_def)
  have "registerManager_calls (InterfaceBase_init ''camera/image'' :: nat InterfaceBase) [1, 2, 1] =
     Some ([Inr (), Inl (InternalError ''There is already a manager registered.''),
            Inl (InternalError ''There is already a manager registered.'')],
           (InterfaceBase_init ''camera/image'')\<lparr>manager := Some 1\<rparr>)"
    using registerManager_binds_once [OF unbound, of 1 "[2, 1]"] by simp
  with unbound show ?thesis
    by (simp add: InterfaceBase_init_def)
qed

subsection \<open>The publisher\<close>

text \<open>
  C9. For every publisher interface and every payload: when \<^verbatim>\<open>publish\<close> raises
  \<^verbatim>\<open>ROSInterruptException\<close>, \<^verbatim>\<open>_send\<close> returns (the empty string); when \<^verbatim>\<open>publish\<close>
  raises \<^verbatim>\<open>ROSSerializationException\<close>, \<^verbatim>\<open>_send\<close> raises \<^verbatim>\<open>InternalError\<close>; and
  whenever \<^verbatim>\<open>_send\<close> returns, it returns the empty string.
\<close>

theorem PublisherInterface_send_outcomes:
  "(publisher self = Some (Some p) \<and> fst (publish p msgData) = Inl ROSInterruptException \<longrightarrow>
      (\<exists>self'. PublisherInterface_send_hook publish self msgData = Some (Inr [], self'))) \<and>
   (publisher self = Some (Some p) \<and> fst (publish p msgData) = Inl ROSSerializationException \<longrightarrow>
      (\<exists>self'. PublisherInterface_send_hook publish self msgData =
         Some (Inl (InternalError ''Message could not be serialized by ROS.''), self'))) \<and>
   (PublisherInterface_send_hook publish self msgData = Some (Inr tok, self'') \<longrightarrow> tok = [])"
  by (cases "publish p msgData")
     (auto simp: PublisherInterface_send_hook_def
       split: option.splits prod.splits sum.splits error.splits)

theorem PublisherInterface_send_outcomes_witness:
  "publisher chatter_publisher = Some (Some 7) \<and>
   fst (example_publish 7 ''stop'') = Inl ROSInterruptException \<and>
   (\<exists>self'. PublisherInterface_send_hook example_publish chatter_publisher ''stop'' =
      Some (Inr [], self')) \<and>
   fst (example_publish 7 ''bad'') = Inl ROSSerializationException \<and>
   (\<exists>self'. PublisherInterface_send_hook example_publish chatter_publisher ''bad'' =
      Some (Inl (InternalError ''Message could not be serialized by ROS.''), self')) \<and>
   PublisherInterface_send_hook example_publish chatter_publisher ''hello'' =
      Some (Inr [], chatter_publisher\<lparr>publisher := Some (Some 8)\<rparr>)"
proof -
  have started: "publisher chatter_publisher = Some (Some 7)"
    by (simp add: chatter_publisher_def)
  have interrupted: "fst (example_publish 7 ''stop'') = Inl ROSInterruptException"
    by (simp add: example_publish_def)
  have unserializable: "fst (example_publish 7 ''bad'') = Inl ROSSerializationException"
    by (simp add: example_publish_def)
  have returned: "PublisherInterface_send_hook example_publish chatter_publisher ''hello'' =
      Some (Inr [], chatter_publisher\<lparr>publisher := Some (Some 8)\<rparr>)"
    by (simp add: PublisherInterface_send_hook_def example_publish_def chatter_publisher_def)
  from PublisherInterface_send_outcomes
    [of chatter_publisher 7 example_publish "''stop''"] started interrupted
  have a: "\<exists>self'. PublisherInterface_send_hook example_publish chatter_publisher ''stop'' =
      Some (Inr [], self')"
    by blast
  from PublisherInterface_send_outcomes
    [of chatter_publisher 7 example_publish "''bad''"] started unserializable
  have b: "\<exists>self'. PublisherInterface_send_hook example_publish chatter_publisher ''bad'' =
      Some (Inl (InternalError ''Message could not be serialized by ROS.''), self')"
    by blast
  from started interrupted a unserializable b returned show ?thesis
    by blast
qed

subsection \<open>The wire descriptor\<close>

text \<open>
  C3. The claim: a name written as a length field and its bytes is read back by
  \<^verbatim>\<open>InterfaceBase.deserialize\<close> (see \<open>InterfaceBase_deserialize_roundtrip\<close>), and a
  service descriptor of two such fields is read back by \<^verbatim>\<open>ServiceInterface.deserialize\<close>
  as a service interface with both fields. On the descriptor of the name \<^verbatim>\<open>arm/grasp\<close>
  and the service type \<^verbatim>\<open>pkg/GraspSrv\<close>, \<^verbatim>\<open>ServiceInterface.deserialize\<close> raises
  \<^verbatim>\<open>TypeError\<close>: it calls the byte string it has just read, whatever the constructor of
  the class is.
\<close>

theorem ServiceInterface_deserialize_arm_grasp:
  "serialize_service ''arm/grasp'' ''pkg/GraspSrv'' =
     Inr ([CHR 0x00, CHR 0x00, CHR 0x00, CHR 0x09] @ ''arm/grasp'' @
          [CHR 0x00, CHR 0x00, CHR 0x00, CHR 0x0C] @ ''pkg/GraspSrv'') \<and>
   ServiceInterface_deserialize construct (PClass ''ServiceInterface'')
     ([CHR 0x00, CHR 0x00, CHR 0x00, CHR 0x09] @ ''arm/grasp'' @
      [CHR 0x00, CHR 0x00, CHR 0x00, CHR 0x0C] @ ''pkg/GraspSrv'') =
     Inl (TypeError ''str object is not callable'')"
  by (simp add: serialize_arm_grasp ServiceInterface_deserialize_def STRUCT_I_unpack_def
      slice_def LEN_I_def py_call_bytes)

text \<open>
  C10, as amended. For every buffer of fewer than four bytes, \<^verbatim>\<open>InterfaceBase.deserialize\<close>
  raises \<^verbatim>\<open>SerializationError\<close>. For every buffer of four bytes or more it returns an
  interface, named by the bytes that follow the length field, up to the length the field
  gives: a name field that is shorter than its length field says is not refused.
\<close>

theorem InterfaceBase_deserialize_malformed_length:
  "(length data < 4 \<longrightarrow>
      (\<exists>msg. InterfaceBase_deserialize cls data = Inl (SerializationError msg))) \<and>
   (4 \<le> length data \<longrightarrow>
      (\<exists>n. STRUCT_I_unpack (take 4 data) = Inr n \<and>
           InterfaceBase_deserialize cls data = Inr (cls (take n (drop 4 data)))))"
proof (intro conjI impI)
  assume "length data < 4"
  then have "STRUCT_I_unpack (slice data 0 LEN_I) =
      Inl (StructError ''unpack requires a string argument of length 4'')"
    by (intro STRUCT_I_unpack_short) (simp add: slice_def LEN_I_def)
  then show "\<exists>msg. InterfaceBase_deserialize cls data = Inl (SerializationError msg)"
    by (simp add: InterfaceBase_deserialize_def)
next
  assume len: "4 \<le> length data"
  then have "length (take 4 data) = 4"
    by simp
  from STRUCT_I_unpack_four [OF this] obtain n where
    n: "STRUCT_I_unpack (take 4 data) = Inr n" ..
  have "InterfaceBase_deserialize cls (take 4 data @ drop 4 data) =
      Inr (cls (take n (drop 4 data)))"
    using len n by (intro InterfaceBase_deserialize_field) simp_all
  with n show "\<exists>n. STRUCT_I_unpack (take 4 data) = Inr n \<and>
      InterfaceBase_deserialize cls data = Inr (cls (take n (drop 4 data)))"
    by simp
qed

theorem InterfaceBase_deserialize_malformed_length_witness:
  "length ''abc'' < 4 \<and>
   (\<exists>msg. InterfaceBase_deserialize (InterfaceBase_init :: bytes \<Rightarrow> unit InterfaceBase) ''abc'' =
      Inl (SerializationError msg)) \<and>
   4 \<le> length ([CHR 0x00, CHR 0x00, CHR 0x00, CHR 0x05] @ ''ab'') \<and>
   (\<exists>n. STRUCT_I_unpack (take 4 ([CHR 0x00, CHR 0x00, CHR 0x00, CHR 0x05] @ ''ab'')) = Inr n \<and>
        InterfaceBase_deserialize (InterfaceBase_init :: bytes \<Rightarrow> unit InterfaceBase)
          ([CHR 0x00, CHR 0x00, CHR 0x00, CHR 0x05] @ ''ab'') =
        Inr (InterfaceBase_init (take n (drop 4 ([CHR 0x00, CHR 0x00, CHR 0x00, CHR 0x05] @ ''ab'')))))"
proof -
  have short: "length ''abc'' < 4"
    by simp
  have long: "4 \<le> length ([CHR 0x00, CHR 0x00, CHR 0x00, CHR 0x05] @ ''ab'')"
    by simp
  from InterfaceBase_deserialize_malformed_length
    [of "''abc''" "InterfaceBase_init :: bytes \<Rightarrow> unit InterfaceBase"] short
  have a: "\<exists>msg. InterfaceBase_deserialize (InterfaceBase_init :: bytes \<Rightarrow> unit InterfaceBase) ''abc'' =
      Inl (SerializationError msg)"
    by blast
  from InterfaceBase_deserialize_malformed_length
    [of "[CHR 0x00, CHR 0x00, CHR 0x00, CHR 0x05] @ ''ab''"
        "InterfaceBase_init :: bytes \<Rightarrow> unit InterfaceBase"] long
  have b: "\<exists>n. STRUCT_I_unpack (take 4 ([CHR 0x00, CHR 0x00, CHR 0x00, CHR 0x05] @ ''ab'')) = Inr n \<and>
        InterfaceBase_deserialize (InterfaceBase_init :: bytes \<Rightarrow> unit InterfaceBase)
          ([CHR 0x00, CHR 0x00, CHR 0x00, CHR 0x05] @ ''ab'') =
        Inr (InterfaceBase_init (take n (drop 4 ([CHR 0x00, CHR 0x00, CHR 0x00, CHR 0x05] @ ''ab''))))"
    by blast
  from short a long b show ?thesis
    by blast
qed

text \<open>
  The claim C10 as the spec states it fails on a buffer whose length field says five and
  whose name field has two bytes: the buffer is not well formed, and
  \<^verbatim>\<open>InterfaceBase.deserialize\<close> returns the interface named \<^verbatim>\<open>ab\<close>.
\<close>

theorem InterfaceBase_deserialize_short_name_counterexample:
  "\<not> well_formed_descriptor ([CHR 0x00, CHR 0x00, CHR 0x00, CHR 0x05] @ ''ab'') \<and>
   InterfaceBase_deserialize (InterfaceBase_init :: bytes \<Rightarrow> unit InterfaceBase)
     ([CHR 0x00, CHR 0x00, CHR 0x00, CHR 0x05] @ ''ab'') = Inr (InterfaceBase_init ''ab'')"
  by (simp add: well_formed_descriptor_def InterfaceBase_deserialize_def STRUCT_I_unpack_def
      slice_def LEN_I_def)

end
